theory Spec2Isabelle
  imports Complex_Main "HOL-Library.FSet"
begin

section \<open>Remote audio I/O over WebSocket: the model of \<^verbatim>\<open>RemoteAudioIO\<close>\<close>

text \<open>
  The development embeds \<^verbatim>\<open>src/glados/audio_io/remote_io.py\<close>. Every method of the class
  \<^verbatim>\<open>RemoteAudioIO\<close> is a function on a record of the object's attributes; what the methods
  do to the outside world (frames handed to a connection, connections closed, timers
  started, lines logged, calls of the VAD model) is recorded in further fields of the
  same record, so that a statement such as "nothing is broadcast" is a statement about
  the state. A method that can raise returns the exception, if any, together with the
  state the object is left in.
\<close>

subsection \<open>Values\<close>

text \<open>
  Python floats: the finite ones as reals, and the three special values, which matter for
  the range check of the constructor (\<^verbatim>\<open>0 <= nan\<close> is false in Python).
\<close>

datatype pyfloat = Fin real | PInf | NInf | NaN

fun py_le :: "pyfloat \<Rightarrow> pyfloat \<Rightarrow> bool" where
  "py_le NaN _ = False"
| "py_le _ NaN = False"
| "py_le NInf _ = True"
| "py_le _ PInf = True"
| "py_le PInf _ = False"
| "py_le _ NInf = False"
| "py_le (Fin a) (Fin b) = (a \<le> b)"

fun py_lt :: "pyfloat \<Rightarrow> pyfloat \<Rightarrow> bool" where
  "py_lt NaN _ = False"
| "py_lt _ NaN = False"
| "py_lt PInf _ = False"
| "py_lt _ NInf = False"
| "py_lt NInf _ = True"
| "py_lt _ PInf = True"
| "py_lt (Fin a) (Fin b) = (a < b)"

definition py_gt :: "pyfloat \<Rightarrow> pyfloat \<Rightarrow> bool" where
  "py_gt a b = py_lt b a"

text \<open>Exceptions that the modelled code can meet.\<close>

datatype exn =
    JSONDecodeError | KeyError | ValueError | AttributeError | TypeError
  | ZeroDivisionError | RuntimeError | ConnectionClosed

text \<open>
  A numpy array: element type, shape and the elements in row-major order.
  \<^verbatim>\<open>a.size\<close> is the product of the shape; \<^verbatim>\<open>len(a)\<close> is the first dimension and raises
  \<^verbatim>\<open>TypeError\<close> for an array without dimensions.
\<close>

datatype dtype = Float32 | Float64 | Int64

datatype ndarray = NdArray (dtype: dtype) (shape: "nat list") (items: "real list")

definition np_size :: "ndarray \<Rightarrow> nat" where
  "np_size a = prod_list (shape a)"

definition np_len :: "ndarray \<Rightarrow> exn + nat" where
  "np_len a = (case shape a of [] \<Rightarrow> Inl TypeError | n # _ \<Rightarrow> Inr n)"

definition expand_dims0 :: "ndarray \<Rightarrow> ndarray" where
  "expand_dims0 a = NdArray (dtype a) (1 # shape a) (items a)"

text \<open>What a caller may pass as \<^verbatim>\<open>audio_data\<close>: a numpy array or some other object.\<close>

datatype pyarg = Ndarray ndarray | PyList "real list" | PyNone

definition isinstance_ndarray :: "pyarg \<Rightarrow> bool" where
  "isinstance_ndarray x = (case x of Ndarray _ \<Rightarrow> True | _ \<Rightarrow> False)"

text \<open>
  Values produced by \<^verbatim>\<open>json.loads\<close>; an object is the list of its items, the keys
  distinct as in a dict. An inbound
  message is either text that \<^verbatim>\<open>json.loads\<close> rejects or text that it decodes.
\<close>

datatype json =
    JNull | JBool bool | JNum real | JStr string
  | JArr "json list" | JObj "(string \<times> json) list"

datatype message = Undecodable | Decodable json

definition json_loads :: "message \<Rightarrow> exn + json" where
  "json_loads m = (case m of Undecodable \<Rightarrow> Inl JSONDecodeError | Decodable j \<Rightarrow> Inr j)"

text \<open>\<^verbatim>\<open>data.get(k)\<close>: only a dict has the method.\<close>

definition dict_get :: "json \<Rightarrow> string \<Rightarrow> exn + json option" where
  "dict_get d k = (case d of JObj kvs \<Rightarrow> Inr (map_of kvs k) | _ \<Rightarrow> Inl AttributeError)"

text \<open>\<^verbatim>\<open>data[k]\<close>.\<close>

definition dict_item :: "json \<Rightarrow> string \<Rightarrow> exn + json" where
  "dict_item d k =
     (case d of
        JObj kvs \<Rightarrow> (case map_of kvs k of None \<Rightarrow> Inl KeyError | Some v \<Rightarrow> Inr v)
      | _ \<Rightarrow> Inl TypeError)"

text \<open>Frames the server sends, one constructor for each dict given to \<^verbatim>\<open>json.dumps\<close>.\<close>

datatype frame =
    Config int int string
  | Pong
  | Audio_playback ndarray int string
  | Stop_playback
  | Error_frame string

type_synonym ws = nat

datatype log_entry =
    Info_connected ws
  | Info_disconnected ws
  | Info_ws_started int
  | Info_stopped
  | Warning_processing ws exn
  | Warning_no_clients
  | Error_handling ws exn
  | Success_started int
  | Success_waiting
  | Debug_broadcasting nat

subsection \<open>The object and its surroundings\<close>

text \<open>
  The first nine fields are the attributes set by \<^verbatim>\<open>__init__\<close>. \<open>outbox c\<close> lists the
  frames handed to connection \<open>c\<close> for sending, oldest first; \<open>close_issued\<close> holds the
  connections on which \<^verbatim>\<open>close()\<close> was called; \<open>timers\<close> the intervals of the
  completion timers started and not yet fired, in the order they were started;
  \<open>vad_calls\<close> the arguments the VAD model was called with.
\<close>

record server =
  vad_threshold :: pyfloat
  ws_port :: int
  sample_queue :: "(ndarray \<times> bool) list"
  is_listening :: bool
  is_playing :: bool
  stop_event :: bool
  ws_server :: bool
  ws_thread :: bool
  clients :: "ws fset"
  outbox :: "ws \<Rightarrow> frame list"
  close_issued :: "ws fset"
  server_close_issued :: bool
  timers :: "real list"
  logged :: "log_entry list"
  vad_calls :: "ndarray list"

definition SAMPLE_RATE :: int where "SAMPLE_RATE = 16000"
definition VAD_THRESHOLD :: pyfloat where "VAD_THRESHOLD = Fin 0.8"
definition WS_PORT :: int where "WS_PORT = 8765"
definition MAX_CLIENTS :: int where "MAX_CLIENTS = 10"
definition AUDIO_CHUNK_SIZE :: int where "AUDIO_CHUNK_SIZE = 1024"

text \<open>
  \<^verbatim>\<open>__init__\<close>. The chained comparison \<^verbatim>\<open>0 <= t <= 1\<close> is the conjunction of its parts;
  \<open>new_server\<close> is the object with the attributes as the constructor sets them. The VAD
  model the constructor creates is the parameter \<open>vad\<close> of the functions that call it.
\<close>

definition new_server :: "pyfloat \<Rightarrow> int \<Rightarrow> server" where
  "new_server thr port =
     \<lparr> vad_threshold = thr, ws_port = port, sample_queue = [],
       is_listening = False, is_playing = False, stop_event = False,
       ws_server = False, ws_thread = False, clients = {||},
       outbox = (\<lambda>_. []), close_issued = {||}, server_close_issued = False,
       timers = [], logged = [], vad_calls = [] \<rparr>"

definition init :: "pyfloat option \<Rightarrow> int option \<Rightarrow> exn + server" where
  "init vad_threshold_arg ws_port_arg =
     (let thr = (case vad_threshold_arg of None \<Rightarrow> VAD_THRESHOLD | Some t \<Rightarrow> t);
          port = (case ws_port_arg of None \<Rightarrow> WS_PORT | Some p \<Rightarrow> p)
      in if \<not> (py_le (Fin 0) thr \<and> py_le thr (Fin 1)) then Inl ValueError
         else Inr (new_server thr port))"

definition send :: "ws \<Rightarrow> frame \<Rightarrow> server \<Rightarrow> server" where
  "send c fr s = s\<lparr>outbox := (outbox s)(c := outbox s c @ [fr])\<rparr>"

definition log_line :: "log_entry \<Rightarrow> server \<Rightarrow> server" where
  "log_line l s = s\<lparr>logged := logged s @ [l]\<rparr>"

subsection \<open>Listening\<close>

definition start_listening :: "server \<Rightarrow> server" where
  "start_listening s =
     (if is_listening s then s
      else log_line Success_waiting (log_line (Success_started (ws_port s))
             (s\<lparr>is_listening := True, stop_event := False, ws_thread := True\<rparr>)))"

text \<open>\<^verbatim>\<open>server_wrapper\<close>, run by the thread: the server object is stored once it serves.\<close>

definition server_wrapper :: "server \<Rightarrow> server" where
  "server_wrapper s = log_line (Info_ws_started (ws_port s)) (s\<lparr>ws_server := True\<rparr>)"

text \<open>
  \<^verbatim>\<open>stop_listening\<close>. Whether \<^verbatim>\<open>asyncio.create_task\<close> raises is up to the surroundings:
  \<open>close_raises c\<close> says so for the closing of client \<open>c\<close> (the exception is swallowed),
  \<open>server_close_raises\<close> for the closing of the server (the exception is not caught).
  Joining the thread changes no attribute.
\<close>

definition stop_listening :: "(ws \<Rightarrow> bool) \<Rightarrow> bool \<Rightarrow> server \<Rightarrow> exn option \<times> server" where
  "stop_listening close_raises server_close_raises s =
     (if \<not> is_listening s then (None, s)
      else
        let s1 = s\<lparr>is_listening := False, stop_event := True\<rparr>;
            s2 = s1\<lparr>close_issued :=
                       close_issued s1 |\<union>| ffilter (\<lambda>c. \<not> close_raises c) (clients s1),
                     clients := {||}\<rparr>
        in if ws_server s2 \<and> server_close_raises then (Some RuntimeError, s2)
           else (None, log_line Info_stopped
                         (s2\<lparr>server_close_issued := (server_close_issued s2 \<or> ws_server s2)\<rparr>)))"

definition get_connected_clients :: "server \<Rightarrow> int" where
  "get_connected_clients s = int (fcard (clients s))"

definition get_sample_queue :: "server \<Rightarrow> (ndarray \<times> bool) list" where
  "get_sample_queue s = sample_queue s"

subsection \<open>Speaking\<close>

text \<open>
  The broadcast loop shared by \<^verbatim>\<open>start_speaking\<close> and \<^verbatim>\<open>stop_speaking\<close>: every client
  of the set is tried; \<open>raises c\<close> says whether handing the frame to \<open>c\<close> raises, in which
  case \<open>c\<close> is collected and discarded from the set after the loop.
\<close>

definition broadcast :: "(ws \<Rightarrow> bool) \<Rightarrow> frame \<Rightarrow> server \<Rightarrow> server" where
  "broadcast raises fr s =
     s\<lparr>outbox := (\<lambda>c. if c |\<in>| clients s \<and> \<not> raises c then outbox s c @ [fr] else outbox s c),
       clients := ffilter (\<lambda>c. \<not> raises c) (clients s)\<rparr>"

definition stop_speaking :: "(frame \<Rightarrow> ws \<Rightarrow> bool) \<Rightarrow> server \<Rightarrow> server" where
  "stop_speaking raises s =
     (if is_playing s then broadcast (raises Stop_playback) Stop_playback (s\<lparr>is_playing := False\<rparr>)
      else s)"

definition start_speaking ::
  "(frame \<Rightarrow> ws \<Rightarrow> bool) \<Rightarrow> server \<Rightarrow> pyarg \<Rightarrow> int option \<Rightarrow> string \<Rightarrow> exn option \<times> server" where
  "start_speaking raises s audio_data sample_rate_arg text =
     (case audio_data of
        Ndarray a \<Rightarrow>
          if np_size a = 0 then (Some ValueError, s)
          else
            let sample_rate = (case sample_rate_arg of None \<Rightarrow> SAMPLE_RATE | Some r \<Rightarrow> r);
                s1 = stop_speaking raises s;
                s2 = (log_line (Debug_broadcasting (fcard (clients s1))) s1)\<lparr>is_playing := True\<rparr>
            in if clients s2 = {||}
               then (None, (log_line Warning_no_clients s2)\<lparr>is_playing := False\<rparr>)
               else
                 let fr = Audio_playback a sample_rate text;
                     s3 = broadcast (raises fr) fr s2
                 in (case np_len a of
                       Inl e \<Rightarrow> (Some e, s3)
                     | Inr n \<Rightarrow>
                         if sample_rate = 0 then (Some ZeroDivisionError, s3)
                         else (None, s3\<lparr>timers := timers s3 @ [real n / real_of_int sample_rate]\<rparr>))
      | _ \<Rightarrow> (Some ValueError, s))"

definition on_playback_complete :: "server \<Rightarrow> server" where
  "on_playback_complete s = s\<lparr>is_playing := False\<rparr>"

text \<open>The \<open>k\<close>-th pending timer fires: it leaves the pending ones and runs its callback.\<close>

definition timer_fires :: "nat \<Rightarrow> server \<Rightarrow> server" where
  "timer_fires k s =
     (if k < length (timers s)
      then on_playback_complete (s\<lparr>timers := take k (timers s) @ drop (Suc k) (timers s)\<rparr>)
      else s)"

definition measure_percentage_spoken :: "server \<Rightarrow> int \<Rightarrow> int option \<Rightarrow> bool \<times> int" where
  "measure_percentage_spoken s total_samples sample_rate_arg =
     (let sample_rate = (case sample_rate_arg of None \<Rightarrow> SAMPLE_RATE | Some r \<Rightarrow> r);
          interrupted = (\<not> is_playing s);
          percentage_played = (if \<not> is_playing s then 100 else 0)
      in (interrupted, percentage_played))"

definition check_if_speaking :: "server \<Rightarrow> bool" where
  "check_if_speaking s = is_playing s"

subsection \<open>One connection: \<^verbatim>\<open>handle_client\<close>\<close>

text \<open>
  The coroutine is cut at its suspension points: the arrival of the connection, each
  inbound message, and the end of the connection. \<open>Streaming\<close> says that the coroutine
  goes on reading, \<open>Closed\<close> that it has left (through its \<^verbatim>\<open>finally\<close> clause, or by the
  early return of a rejected connection).
\<close>

datatype session = Streaming | Closed

definition finally_discard :: "ws \<Rightarrow> server \<Rightarrow> server" where
  "finally_discard c s = s\<lparr>clients := clients s |-| {|c|}\<rparr>"

definition handle_connect :: "server \<Rightarrow> ws \<Rightarrow> session \<times> server" where
  "handle_connect s c =
     (let s0 = log_line (Info_connected c) s
      in if MAX_CLIENTS \<le> int (fcard (clients s0))
         then (Closed, (send c (Error_frame ''Server at maximum capacity'') s0)
                         \<lparr>close_issued := finsert c (close_issued s0)\<rparr>)
         else (Streaming, send c (Config SAMPLE_RATE AUDIO_CHUNK_SIZE ''float32'')
                            (s0\<lparr>clients := finsert c (clients s0)\<rparr>)))"

text \<open>
  The body of the inner \<^verbatim>\<open>try\<close>. \<open>np_array\<close> stands for
  \<^verbatim>\<open>np.array(_, dtype=np.float32)\<close> and \<open>vad\<close> for the VAD model, which is not part of
  this file of the repository: both are parameters, and both may raise.
\<close>

definition process_message ::
  "(json \<Rightarrow> exn + ndarray) \<Rightarrow> (ndarray \<Rightarrow> exn + pyfloat) \<Rightarrow> server \<Rightarrow> ws \<Rightarrow> message
     \<Rightarrow> exn option \<times> server" where
  "process_message np_array vad s c m =
     (case json_loads m of
        Inl e \<Rightarrow> (Some e, s)
      | Inr data \<Rightarrow>
         (case dict_get data ''type'' of
            Inl e \<Rightarrow> (Some e, s)
          | Inr ty \<Rightarrow>
             if ty = Some (JStr ''audio'') then
               (case dict_item data ''data'' of
                  Inl e \<Rightarrow> (Some e, s)
                | Inr d \<Rightarrow>
                   (case np_array d of
                      Inl e \<Rightarrow> (Some e, s)
                    | Inr audio_data \<Rightarrow>
                       (case np_len audio_data of
                          Inl e \<Rightarrow> (Some e, s)
                        | Inr n \<Rightarrow>
                           if n > 0 then
                             (let x = expand_dims0 audio_data;
                                  s1 = s\<lparr>vad_calls := vad_calls s @ [x]\<rparr>
                              in case vad x of
                                   Inl e \<Rightarrow> (Some e, s1)
                                 | Inr vad_value \<Rightarrow>
                                    (None, s1\<lparr>sample_queue := sample_queue s1 @
                                       [(audio_data, py_gt vad_value (vad_threshold s1))]\<rparr>))
                           else (None, s))))
             else if ty = Some (JStr ''ping'') then (None, send c Pong s)
             else (None, s)))"

text \<open>\<^verbatim>\<open>except (json.JSONDecodeError, KeyError, ValueError)\<close>\<close>

definition caught_per_message :: "exn \<Rightarrow> bool" where
  "caught_per_message e = (e = JSONDecodeError \<or> e = KeyError \<or> e = ValueError)"

text \<open>One turn of the \<^verbatim>\<open>async for\<close> loop, with the handlers around it.\<close>

definition handle_message ::
  "(json \<Rightarrow> exn + ndarray) \<Rightarrow> (ndarray \<Rightarrow> exn + pyfloat) \<Rightarrow> server \<Rightarrow> ws \<Rightarrow> message
     \<Rightarrow> session \<times> server" where
  "handle_message np_array vad s c m =
     (if stop_event s then (Closed, finally_discard c s)
      else
        (case process_message np_array vad s c m of
           (None, s') \<Rightarrow> (Streaming, s')
         | (Some e, s') \<Rightarrow>
             if caught_per_message e then (Streaming, log_line (Warning_processing c e) s')
             else if e = ConnectionClosed
             then (Closed, finally_discard c (log_line (Info_disconnected c) s'))
             else (Closed, finally_discard c (log_line (Error_handling c e) s'))))"

text \<open>
  The connection ends while the coroutine waits for a message: the loop is left, with
  \<^verbatim>\<open>ConnectionClosed\<close> when the end was not a clean one.
\<close>

definition handle_disconnect :: "bool \<Rightarrow> server \<Rightarrow> ws \<Rightarrow> server" where
  "handle_disconnect clean s c =
     finally_discard c (if clean then s else log_line (Info_disconnected c) s)"

subsection \<open>Runs\<close>

datatype event =
    Start_listening
  | Server_up
  | Connect ws
  | Message ws message
  | Disconnect bool ws
  | Stop_listening "ws \<Rightarrow> bool" bool
  | Start_speaking "frame \<Rightarrow> ws \<Rightarrow> bool" pyarg "int option" string
  | Stop_speaking "frame \<Rightarrow> ws \<Rightarrow> bool"
  | Timer_fires nat

fun step ::
  "(json \<Rightarrow> exn + ndarray) \<Rightarrow> (ndarray \<Rightarrow> exn + pyfloat) \<Rightarrow> server \<Rightarrow> event \<Rightarrow> server" where
  "step np_array vad s Start_listening = start_listening s"
| "step np_array vad s Server_up = server_wrapper s"
| "step np_array vad s (Connect c) = snd (handle_connect s c)"
| "step np_array vad s (Message c m) = snd (handle_message np_array vad s c m)"
| "step np_array vad s (Disconnect clean c) = handle_disconnect clean s c"
| "step np_array vad s (Stop_listening cr sr) = snd (stop_listening cr sr s)"
| "step np_array vad s (Start_speaking r a sr t) = snd (start_speaking r s a sr t)"
| "step np_array vad s (Stop_speaking r) = stop_speaking r s"
| "step np_array vad s (Timer_fires k) = timer_fires k s"

definition run ::
  "(json \<Rightarrow> exn + ndarray) \<Rightarrow> (ndarray \<Rightarrow> exn + pyfloat) \<Rightarrow> server \<Rightarrow> event list \<Rightarrow> server" where
  "run np_array vad s evs = foldl (step np_array vad) s evs"

subsection \<open>Sample surroundings and runs\<close>

text \<open>
  Concrete inputs on which the theorems below are exercised. \<open>np_array_flat\<close> does what
  \<^verbatim>\<open>np.array(_, dtype=np.float32)\<close> does on a number and on a flat list of numbers, the
  only arguments it is applied to here; \<open>vad_loud\<close> is a stand-in for the VAD model that
  scores a chunk by its loudest sample.
\<close>

definition never_raises :: "frame \<Rightarrow> ws \<Rightarrow> bool" where
  "never_raises fr c = False"

definition close_never_raises :: "ws \<Rightarrow> bool" where
  "close_never_raises c = False"

fun json_number :: "json \<Rightarrow> real option" where
  "json_number (JNum x) = Some x"
| "json_number _ = None"

definition np_array_flat :: "json \<Rightarrow> exn + ndarray" where
  "np_array_flat j =
     (case j of
        JNum x \<Rightarrow> Inr (NdArray Float32 [] [x])
      | JArr js \<Rightarrow>
          (case those (map json_number js) of
             Some xs \<Rightarrow> Inr (NdArray Float32 [length xs] xs)
           | None \<Rightarrow> Inl ValueError)
      | _ \<Rightarrow> Inl ValueError)"

definition vad_loud :: "ndarray \<Rightarrow> exn + pyfloat" where
  "vad_loud a = Inr (Fin (if list_ex (\<lambda>x. 1/2 < \<bar>x\<bar>) (items a) then 9/10 else 1/10))"

definition idle_server :: server where
  "idle_server = new_server VAD_THRESHOLD WS_PORT"

definition two_samples :: ndarray where
  "two_samples = NdArray Float32 [2] [1/10, 1/10]"

definition int_samples :: ndarray where
  "int_samples = NdArray Int64 [3] [1, 2, 3]"

definition one_client :: server where
  "one_client = run np_array_flat vad_loud idle_server [Start_listening, Server_up, Connect 1]"

definition full_house :: server where
  "full_house =
     run np_array_flat vad_loud idle_server (Start_listening # Server_up # map Connect [0..<10])"

definition audience_left :: server where
  "audience_left =
     run np_array_flat vad_loud one_client
       [Start_speaking never_raises (Ndarray two_samples) (Some 2) ''first'', Disconnect True 1]"

definition speaking :: server where
  "speaking =
     run np_array_flat vad_loud one_client
       [Start_speaking never_raises (Ndarray two_samples) (Some 2) ''first'']"

definition two_playbacks :: "event list" where
  "two_playbacks =
     [Start_speaking never_raises (Ndarray two_samples) (Some 2) ''first'',
      Start_speaking never_raises (Ndarray two_samples) (Some 2) ''second'']"

definition audio_message :: "json list \<Rightarrow> message" where
  "audio_message xs = Decodable (JObj [(''type'', JStr ''audio''), (''data'', JArr xs)])"

section \<open>Properties\<close>

subsection \<open>Auxiliary facts\<close>

lemma ffilter_fempty: "ffilter P {||} = {||}"
  by auto

lemma fcard_ffilter_le: "fcard (ffilter P A) \<le> fcard A"
  by (rule fcard_mono) auto

lemma clients_update_same: "clients s = A \<Longrightarrow> s\<lparr>clients := A\<rparr> = s"
  by (cases s) simp

lemma init_default: "init None None = Inr idle_server"
  by (simp add: init_def idle_server_def VAD_THRESHOLD_def)

lemma init_no_clients: "init t p = Inr s \<Longrightarrow> clients s = {||}"
  by (auto simp: init_def new_server_def Let_def split: if_splits)

lemma init_threshold:
  "init t p = Inr s \<Longrightarrow> vad_threshold s = (case t of None \<Rightarrow> VAD_THRESHOLD | Some x \<Rightarrow> x)"
  by (auto simp: init_def new_server_def Let_def split: if_splits)

lemma broadcast_no_clients: "clients s = {||} \<Longrightarrow> broadcast raises fr s = s"
  by (simp add: broadcast_def ffilter_fempty clients_update_same)

lemma stop_speaking_no_clients:
  "clients s = {||} \<Longrightarrow> stop_speaking raises s = s\<lparr>is_playing := False\<rparr>"
  by (simp add: stop_speaking_def broadcast_no_clients)

lemma stop_speaking_idle: "\<not> is_playing s \<Longrightarrow> stop_speaking raises s = s"
  by (simp add: stop_speaking_def)

lemma stop_speaking_playing:
  "is_playing s \<Longrightarrow>
     \<not> is_playing (stop_speaking raises s)
   \<and> clients (stop_speaking raises s) = ffilter (\<lambda>c. \<not> raises Stop_playback c) (clients s)
   \<and> (\<forall>c. c |\<in>| clients s \<and> \<not> raises Stop_playback c
          \<longrightarrow> outbox (stop_speaking raises s) c = outbox s c @ [Stop_playback])
   \<and> (\<forall>c. \<not> (c |\<in>| clients s \<and> \<not> raises Stop_playback c)
          \<longrightarrow> outbox (stop_speaking raises s) c = outbox s c)"
  by (simp add: stop_speaking_def broadcast_def)

lemma start_speaking_playing_or_alone:
  "np_size a \<noteq> 0 \<Longrightarrow>
     is_playing (snd (start_speaking r s (Ndarray a) sr t))
   \<or> clients (snd (start_speaking r s (Ndarray a) sr t)) = {||}"
  by (simp add: start_speaking_def Let_def broadcast_def log_line_def split: sum.splits)

subsection \<open>The threshold is never written after construction\<close>

lemma process_message_threshold:
  "vad_threshold (snd (process_message np_array vad s c m)) = vad_threshold s"
  by (simp add: process_message_def send_def Let_def split: sum.splits)

lemma handle_message_threshold:
  "vad_threshold (snd (handle_message np_array vad s c m)) = vad_threshold s"
proof (cases "process_message np_array vad s c m")
  case (Pair e s')
  then have "vad_threshold s' = vad_threshold s"
    using process_message_threshold [of np_array vad s c m] by simp
  with Pair show ?thesis
    by (simp add: handle_message_def finally_discard_def log_line_def split: option.splits)
qed

lemma stop_speaking_threshold: "vad_threshold (stop_speaking raises s) = vad_threshold s"
  by (simp add: stop_speaking_def broadcast_def)

lemma start_speaking_threshold:
  "vad_threshold (snd (start_speaking raises s a sr t)) = vad_threshold s"
  by (simp add: start_speaking_def Let_def log_line_def broadcast_def stop_speaking_threshold
           split: pyarg.splits sum.splits)

lemma step_threshold: "vad_threshold (step np_array vad s e) = vad_threshold s"
proof (cases e)
  case (Message c m)
  then show ?thesis by (simp add: handle_message_threshold)
next
  case (Start_speaking r a sr t)
  then show ?thesis by (simp add: start_speaking_threshold)
next
  case (Stop_speaking r)
  then show ?thesis by (simp add: stop_speaking_threshold)
qed (simp_all add: start_listening_def server_wrapper_def handle_connect_def
       handle_disconnect_def stop_listening_def timer_fires_def on_playback_complete_def
       finally_discard_def send_def log_line_def Let_def)

lemma run_threshold: "vad_threshold (run np_array vad s evs) = vad_threshold s"
  unfolding run_def
  by (induction evs arbitrary: s) (simp_all add: step_threshold)

subsection \<open>No operation lets the client set grow beyond the limit\<close>

lemma broadcast_capacity: "fcard (clients (broadcast raises fr s)) \<le> fcard (clients s)"
  by (simp add: broadcast_def fcard_ffilter_le)

lemma stop_speaking_capacity: "fcard (clients (stop_speaking raises s)) \<le> fcard (clients s)"
  by (simp add: stop_speaking_def broadcast_def fcard_ffilter_le)

lemma finally_discard_capacity: "fcard (clients (finally_discard c s)) \<le> fcard (clients s)"
  by (simp add: finally_discard_def fcard_fminus1_le)

lemma process_message_clients:
  "clients (snd (process_message np_array vad s c m)) = clients s"
  by (simp add: process_message_def send_def Let_def split: sum.splits)

lemma handle_message_capacity:
  "fcard (clients (snd (handle_message np_array vad s c m))) \<le> fcard (clients s)"
proof (cases "process_message np_array vad s c m")
  case (Pair e s')
  then have "clients s' = clients s"
    using process_message_clients [of np_array vad s c m] by simp
  with Pair show ?thesis
    by (simp add: handle_message_def finally_discard_def log_line_def fcard_fminus1_le
             split: option.splits)
qed

lemma handle_connect_capacity:
  "int (fcard (clients s)) \<le> MAX_CLIENTS
   \<Longrightarrow> int (fcard (clients (snd (handle_connect s c)))) \<le> MAX_CLIENTS"
  by (simp add: handle_connect_def Let_def log_line_def send_def fcard_finsert_if)

lemma start_speaking_capacity:
  "fcard (clients (snd (start_speaking raises s a sr t))) \<le> fcard (clients s)"
proof -
  have "fcard (clients (broadcast r fr (log_line l (stop_speaking raises s)\<lparr>is_playing := True\<rparr>)))
          \<le> fcard (clients s)" for r fr l
    using stop_speaking_capacity [of raises s]
    by (simp add: broadcast_def log_line_def order_trans [OF fcard_ffilter_le])
  moreover have "fcard (clients (stop_speaking raises s)) \<le> fcard (clients s)"
    by (rule stop_speaking_capacity)
  ultimately show ?thesis
    by (simp add: start_speaking_def Let_def log_line_def fcard_fempty
             split: pyarg.splits sum.splits)
qed

lemma stop_listening_capacity:
  "fcard (clients (snd (stop_listening cr sr s))) \<le> fcard (clients s)"
  by (simp add: stop_listening_def Let_def log_line_def fcard_fempty)

lemma step_capacity:
  assumes "int (fcard (clients s)) \<le> MAX_CLIENTS"
  shows "int (fcard (clients (step np_array vad s e))) \<le> MAX_CLIENTS"
proof (cases e)
  case Start_listening
  with assms show ?thesis by (simp add: start_listening_def log_line_def)
next
  case Server_up
  with assms show ?thesis by (simp add: server_wrapper_def log_line_def)
next
  case (Connect c)
  with assms show ?thesis by (simp add: handle_connect_capacity)
next
  case (Message c m)
  with assms handle_message_capacity [of np_array vad s c m] show ?thesis by simp
next
  case (Disconnect clean c)
  with assms finally_discard_capacity [of c "if clean then s else log_line (Info_disconnected c) s"]
  show ?thesis by (simp add: handle_disconnect_def log_line_def split: if_splits)
next
  case (Stop_listening cr sr)
  with assms stop_listening_capacity [of cr sr s] show ?thesis by simp
next
  case (Start_speaking r a sr t)
  with assms start_speaking_capacity [of r s a sr t] show ?thesis by simp
next
  case (Stop_speaking r)
  with assms stop_speaking_capacity [of r s] show ?thesis by simp
next
  case (Timer_fires k)
  with assms show ?thesis by (simp add: timer_fires_def on_playback_complete_def)
qed

lemma run_capacity:
  "int (fcard (clients s)) \<le> MAX_CLIENTS
   \<Longrightarrow> int (fcard (clients (run np_array vad s evs))) \<le> MAX_CLIENTS"
  unfolding run_def
  by (induction evs arbitrary: s) (simp_all add: step_capacity)

lemma process_audio_empty:
  assumes "m = Decodable (JObj kvs)" "map_of kvs ''type'' = Some (JStr ''audio'')"
    "map_of kvs ''data'' = Some d" "np_array d = Inr chunk" "np_len chunk = Inr 0"
  shows "process_message np_array vad s c m = (None, s)"
  using assms by (simp add: process_message_def json_loads_def dict_get_def dict_item_def)

lemma process_audio_chunk:
  assumes "m = Decodable (JObj kvs)" "map_of kvs ''type'' = Some (JStr ''audio'')"
    "map_of kvs ''data'' = Some d" "np_array d = Inr chunk" "np_len chunk = Inr n" "0 < n"
    "vad (expand_dims0 chunk) = Inr score"
  shows "process_message np_array vad s c m =
    (None, s\<lparr>vad_calls := vad_calls s @ [expand_dims0 chunk],
             sample_queue := sample_queue s @ [(chunk, py_gt score (vad_threshold s))]\<rparr>)"
  using assms by (simp add: process_message_def json_loads_def dict_get_def dict_item_def Let_def)

lemma py_unit_iff: "(py_le (Fin 0) t \<and> py_le t (Fin 1)) = (t \<in> Fin ` {0..1})"
  by (cases t) auto

subsection \<open>What ends a session, and what a timer does\<close>

text \<open>
  A message that decodes to anything but an object ends the session, in every state in
  which the loop is running; an undecodable message, or an audio message without the
  key "data", does not.
\<close>

lemma non_object_message_fatal:
  assumes "\<not> stop_event s" and "\<forall>kvs. j \<noteq> JObj kvs"
  shows "handle_message np_array vad s c (Decodable j)
           = (Closed, finally_discard c (log_line (Error_handling c AttributeError) s))"
proof -
  from assms(2) have "dict_get j ''type'' = Inl AttributeError"
    by (cases j) (simp_all add: dict_get_def)
  then have "process_message np_array vad s c (Decodable j) = (Some AttributeError, s)"
    by (simp add: process_message_def json_loads_def)
  with assms(1) show ?thesis
    by (simp add: handle_message_def caught_per_message_def)
qed

lemma undecodable_message_dropped:
  "\<not> stop_event s \<Longrightarrow>
   handle_message np_array vad s c Undecodable
     = (Streaming, log_line (Warning_processing c JSONDecodeError) s)"
  by (simp add: handle_message_def process_message_def json_loads_def caught_per_message_def)

lemma audio_without_data_dropped:
  "\<not> stop_event s \<Longrightarrow>
   handle_message np_array vad s c (Decodable (JObj [(''type'', JStr ''audio'')]))
     = (Streaming, log_line (Warning_processing c KeyError) s)"
  by (simp add: handle_message_def process_message_def json_loads_def dict_get_def
        dict_item_def caught_per_message_def)

text \<open>Whichever pending timer fires, the playing flag is cleared.\<close>

lemma timer_fires_clears:
  "k < length (timers s) \<Longrightarrow> \<not> is_playing (timer_fires k s)"
  by (simp add: timer_fires_def on_playback_complete_def)

subsection \<open>The claims\<close>

text \<open>
  C1. An inbound message of type "audio", handled by a session whose loop has not been
  stopped: when the decoded chunk has length 0, the whole state is as before, so the VAD
  model is not called and nothing is queued; when the length is positive and the model
  returns a score, the model is called once, on the chunk with a leading dimension, and
  exactly one entry is appended to the sample queue, the chunk with the flag
  \<open>score > vad_threshold\<close>. The threshold is the one given to the constructor, whatever
  has happened since.
\<close>

theorem audio_message_vad_gate:
  assumes "\<not> stop_event s"
    and "m = Decodable (JObj kvs)"
    and "map_of kvs ''type'' = Some (JStr ''audio'')"
    and "map_of kvs ''data'' = Some d"
    and "np_array d = Inr chunk"
    and "np_len chunk = Inr n"
  shows "(n = 0 \<longrightarrow> handle_message np_array vad s c m = (Streaming, s))
       \<and> (0 < n \<and> vad (expand_dims0 chunk) = Inr score \<longrightarrow>
            handle_message np_array vad s c m =
              (Streaming, s\<lparr>vad_calls := vad_calls s @ [expand_dims0 chunk],
                            sample_queue := sample_queue s @
                              [(chunk, py_gt score (vad_threshold s))]\<rparr>))
       \<and> (init t p = Inr fresh \<longrightarrow>
            vad_threshold (run np_array vad fresh evs)
              = (case t of None \<Rightarrow> VAD_THRESHOLD | Some x \<Rightarrow> x))"
proof (intro conjI impI)
  assume "n = 0"
  with assms show "handle_message np_array vad s c m = (Streaming, s)"
    by (simp add: handle_message_def process_audio_empty)
next
  assume "0 < n \<and> vad (expand_dims0 chunk) = Inr score"
  with assms show "handle_message np_array vad s c m =
      (Streaming, s\<lparr>vad_calls := vad_calls s @ [expand_dims0 chunk],
                    sample_queue := sample_queue s @ [(chunk, py_gt score (vad_threshold s))]\<rparr>)"
    by (simp add: handle_message_def process_audio_chunk)
next
  assume "init t p = Inr fresh"
  then show "vad_threshold (run np_array vad fresh evs)
      = (case t of None \<Rightarrow> VAD_THRESHOLD | Some x \<Rightarrow> x)"
    by (simp add: run_threshold init_threshold)
qed

theorem audio_message_vad_gate_witness:
  "\<not> stop_event one_client
   \<and> handle_message np_array_flat vad_loud one_client 1 (audio_message []) = (Streaming, one_client)
   \<and> handle_message np_array_flat vad_loud one_client 1 (audio_message [JNum 1, JNum 0]) =
       (Streaming, one_client\<lparr>vad_calls := [NdArray Float32 [1, 2] [1, 0]],
                              sample_queue := [(NdArray Float32 [2] [1, 0], True)]\<rparr>)
   \<and> vad_threshold (run np_array_flat vad_loud idle_server two_playbacks) = Fin (4/5)"
proof -
  have live: "\<not> stop_event one_client" by code_simp
  have q: "sample_queue one_client = []" "vad_calls one_client = []"
    "vad_threshold one_client = Fin (4/5)" by code_simp+
  have e: "handle_message np_array_flat vad_loud one_client 1 (audio_message [])
             = (Streaming, one_client)"
    using audio_message_vad_gate [OF live, where m = "audio_message []" and d = "JArr []"
        and np_array = np_array_flat and chunk = "NdArray Float32 [0] []" and n = 0
        and vad = vad_loud and c = 1]
    by (simp add: audio_message_def np_array_flat_def np_len_def)
  have l: "handle_message np_array_flat vad_loud one_client 1 (audio_message [JNum 1, JNum 0]) =
       (Streaming, one_client\<lparr>vad_calls := [NdArray Float32 [1, 2] [1, 0]],
                              sample_queue := [(NdArray Float32 [2] [1, 0], True)]\<rparr>)"
    using audio_message_vad_gate [OF live, where m = "audio_message [JNum 1, JNum 0]"
        and d = "JArr [JNum 1, JNum 0]" and np_array = np_array_flat
        and chunk = "NdArray Float32 [2] [1, 0]" and n = 2 and vad = vad_loud
        and score = "Fin (9/10)" and c = 1]
    by (simp add: audio_message_def np_array_flat_def np_len_def vad_loud_def expand_dims0_def
          py_gt_def q)
  have t: "vad_threshold (run np_array_flat vad_loud idle_server two_playbacks) = Fin (4/5)"
    using audio_message_vad_gate [OF live, where m = "audio_message []" and d = "JArr []"
        and np_array = np_array_flat and chunk = "NdArray Float32 [0] []" and n = 0
        and t = None and p = None and fresh = idle_server and vad = vad_loud
        and evs = two_playbacks]
    by (simp add: audio_message_def np_array_flat_def np_len_def init_default VAD_THRESHOLD_def)
  from live e l t show ?thesis by simp
qed

text \<open>
  C2. In every state reached from a newly constructed server the number of connected
  clients is at most \<open>MAX_CLIENTS\<close>, which is 10. A connection that arrives when the
  set already has that many members is handed the error frame "Server at maximum
  capacity" and closed; the coroutine returns; the client set, and with it the count
  reported by \<^verbatim>\<open>get_connected_clients\<close>, is as before, and no other connection is sent
  anything or closed.
\<close>

theorem capacity_limit:
  "MAX_CLIENTS = 10
   \<and> (init t p = Inr fresh \<longrightarrow> get_connected_clients (run np_array vad fresh evs) \<le> MAX_CLIENTS)
   \<and> (MAX_CLIENTS \<le> get_connected_clients s \<longrightarrow>
        fst (handle_connect s c) = Closed
      \<and> outbox (snd (handle_connect s c)) c
          = outbox s c @ [Error_frame ''Server at maximum capacity'']
      \<and> close_issued (snd (handle_connect s c)) = finsert c (close_issued s)
      \<and> clients (snd (handle_connect s c)) = clients s
      \<and> (\<forall>d. d \<noteq> c \<longrightarrow> outbox (snd (handle_connect s c)) d = outbox s d)
      \<and> get_connected_clients (snd (handle_connect s c)) = get_connected_clients s)"
proof (intro conjI impI)
  show "MAX_CLIENTS = 10" by (simp add: MAX_CLIENTS_def)
next
  assume "init t p = Inr fresh"
  then have "clients fresh = {||}" by (rule init_no_clients)
  then have "int (fcard (clients fresh)) \<le> MAX_CLIENTS"
    by (simp add: MAX_CLIENTS_def fcard_fempty)
  then show "get_connected_clients (run np_array vad fresh evs) \<le> MAX_CLIENTS"
    unfolding get_connected_clients_def by (rule run_capacity)
next
  assume full: "MAX_CLIENTS \<le> get_connected_clients s"
  then show "fst (handle_connect s c) = Closed"
    by (simp add: handle_connect_def get_connected_clients_def Let_def log_line_def)
  from full show "outbox (snd (handle_connect s c)) c
      = outbox s c @ [Error_frame ''Server at maximum capacity'']"
    by (simp add: handle_connect_def get_connected_clients_def Let_def log_line_def send_def)
  from full show "close_issued (snd (handle_connect s c)) = finsert c (close_issued s)"
    by (simp add: handle_connect_def get_connected_clients_def Let_def log_line_def send_def)
  from full show "clients (snd (handle_connect s c)) = clients s"
    by (simp add: handle_connect_def get_connected_clients_def Let_def log_line_def send_def)
  from full show "\<forall>d. d \<noteq> c \<longrightarrow> outbox (snd (handle_connect s c)) d = outbox s d"
    by (simp add: handle_connect_def get_connected_clients_def Let_def log_line_def send_def)
  from full show "get_connected_clients (snd (handle_connect s c)) = get_connected_clients s"
    by (simp add: handle_connect_def get_connected_clients_def Let_def log_line_def send_def)
qed

theorem capacity_limit_witness:
  "init None None = Inr idle_server
   \<and> get_connected_clients
        (run np_array_flat vad_loud idle_server (Start_listening # map Connect [0..<12])) \<le> 10
   \<and> MAX_CLIENTS \<le> get_connected_clients full_house
   \<and> fst (handle_connect full_house 10) = Closed
   \<and> outbox (snd (handle_connect full_house 10)) 10 = [Error_frame ''Server at maximum capacity'']
   \<and> close_issued (snd (handle_connect full_house 10)) = {|10|}
   \<and> clients (snd (handle_connect full_house 10)) = clients full_house
   \<and> get_connected_clients (snd (handle_connect full_house 10)) = 10"
proof -
  have full: "MAX_CLIENTS \<le> get_connected_clients full_house" by code_simp
  have before: "outbox full_house 10 = []" "close_issued full_house = {||}"
    "get_connected_clients full_house = 10" by code_simp+
  from capacity_limit [of None None idle_server np_array_flat vad_loud
      "Start_listening # map Connect [0..<12]" full_house 10] init_default full before
  show ?thesis by simp
qed

text \<open>
  C3. The claim is that no inbound message ends the session. The handler around the
  message catches \<^verbatim>\<open>JSONDecodeError\<close>, \<^verbatim>\<open>KeyError\<close> and \<^verbatim>\<open>ValueError\<close> only. A message
  that is valid JSON but not an object, here the empty array, makes \<^verbatim>\<open>data.get\<close> raise
  \<^verbatim>\<open>AttributeError\<close>, which passes that handler: the outer one logs an error, the
  \<^verbatim>\<open>finally\<close> clause removes the client, and the loop is left. The session was streaming
  and the stop event was not set.
\<close>

theorem non_object_message_ends_session:
  "1 |\<in>| clients one_client \<and> \<not> stop_event one_client
   \<and> fst (handle_message np_array_flat vad_loud one_client 1 (Decodable (JArr []))) = Closed
   \<and> 1 |\<notin>| clients (snd (handle_message np_array_flat vad_loud one_client 1 (Decodable (JArr []))))
   \<and> logged (snd (handle_message np_array_flat vad_loud one_client 1 (Decodable (JArr []))))
       = logged one_client @ [Error_handling 1 AttributeError]"
  by code_simp

text \<open>
  C4. The claim is that the timer of an earlier playback, firing after a newer playback
  has started, leaves the newer playback marked as playing. \<^verbatim>\<open>_on_playback_complete\<close>
  clears the flag whichever timer calls it. With one client, two playbacks of one second
  each are started one after the other; both timers are pending and the flag is set. When
  the first timer fires the flag is cleared, although the second playback's own timer is
  still pending and no stop frame was sent after the second playback frame.
\<close>

theorem stale_timer_clears_playing:
  "is_playing (run np_array_flat vad_loud one_client two_playbacks)
   \<and> timers (run np_array_flat vad_loud one_client two_playbacks) = [1, 1]
   \<and> \<not> check_if_speaking (run np_array_flat vad_loud one_client (two_playbacks @ [Timer_fires 0]))
   \<and> timers (run np_array_flat vad_loud one_client (two_playbacks @ [Timer_fires 0])) = [1]
   \<and> outbox (run np_array_flat vad_loud one_client (two_playbacks @ [Timer_fires 0])) 1
       = [Config 16000 1024 ''float32'', Audio_playback two_samples 2 ''first'', Stop_playback,
          Audio_playback two_samples 2 ''second'']"
  by code_simp

text \<open>
  C5. \<^verbatim>\<open>measure_percentage_spoken\<close> returns \<open>(True, 100)\<close> when nothing is playing and
  \<open>(False, 0)\<close> when something is, whatever its two arguments are, and
  \<^verbatim>\<open>check_if_speaking\<close> returns the playing flag.
\<close>

theorem measure_percentage_spoken_by_state:
  "(\<not> is_playing s \<longrightarrow> measure_percentage_spoken s total_samples sample_rate = (True, 100))
   \<and> (is_playing s \<longrightarrow> measure_percentage_spoken s total_samples sample_rate = (False, 0))
   \<and> check_if_speaking s = is_playing s"
  by (simp add: measure_percentage_spoken_def check_if_speaking_def)

theorem measure_percentage_spoken_by_state_witness:
  "\<not> is_playing one_client
   \<and> measure_percentage_spoken one_client 32000 None = (True, 100)
   \<and> \<not> check_if_speaking one_client
   \<and> is_playing speaking
   \<and> measure_percentage_spoken speaking 2 (Some 0) = (False, 0)
   \<and> check_if_speaking speaking"
proof -
  have idle: "\<not> is_playing one_client" by code_simp
  have playing: "is_playing speaking" by code_simp
  from measure_percentage_spoken_by_state [of one_client 32000 None]
    measure_percentage_spoken_by_state [of speaking 2 "Some 0"] idle playing
  show ?thesis by simp
qed

text \<open>
  C6. The constructor succeeds for every threshold between 0 and 1, and keeps the
  threshold it was given; it succeeds with the default 0.8 when no threshold is given;
  for every other float, the infinities and NaN among them, it raises \<^verbatim>\<open>ValueError\<close>
  and there is no object, with a clamped threshold or any other.
\<close>

theorem init_threshold_range:
  "(0 \<le> r \<and> r \<le> 1 \<longrightarrow> (\<exists>s. init (Some (Fin r)) p = Inr s \<and> vad_threshold s = Fin r))
   \<and> (\<exists>s. init None p = Inr s \<and> vad_threshold s = Fin (4/5))
   \<and> (t \<notin> Fin ` {0..1} \<longrightarrow> init (Some t) p = Inl ValueError)"
  using py_unit_iff [of t] by (simp add: init_def new_server_def VAD_THRESHOLD_def)

theorem init_threshold_range_witness:
  "(0::real) \<le> 1/2 \<and> (1/2::real) \<le> 1
   \<and> (\<exists>s. init (Some (Fin (1/2))) None = Inr s \<and> vad_threshold s = Fin (1/2))
   \<and> Fin (3/2) \<notin> Fin ` {0..1} \<and> init (Some (Fin (3/2))) None = Inl ValueError"
  using init_threshold_range [of "1/2" None "Fin (3/2)"] by auto

text \<open>
  C7. The claim is that every argument that is empty or not a float array is rejected.
  The check is \<^verbatim>\<open>not isinstance(audio_data, np.ndarray) or audio_data.size == 0\<close>: the
  element type is not looked at. A non-empty array of integers is accepted: the call
  returns without an exception, the playing flag is set and the frame is handed to the
  client.
\<close>

theorem start_speaking_accepts_int_array:
  "dtype int_samples = Int64 \<and> np_size int_samples = 3 \<and> \<not> is_playing one_client
   \<and> fst (start_speaking never_raises one_client (Ndarray int_samples) None '''') = None
   \<and> is_playing (snd (start_speaking never_raises one_client (Ndarray int_samples) None ''''))
   \<and> outbox (snd (start_speaking never_raises one_client (Ndarray int_samples) None '''')) 1
       = outbox one_client 1 @ [Audio_playback int_samples 16000 '''']"
  by code_simp

text \<open>
  C7, as amended. For every argument that is not a numpy array, or is a numpy array of
  size 0, \<^verbatim>\<open>start_speaking\<close> raises \<^verbatim>\<open>ValueError\<close> and the state is the one before the
  call: playing flag, client set, sample queue and the frames sent to every client.
\<close>

theorem start_speaking_rejects:
  "\<not> isinstance_ndarray x \<or> (\<exists>a. x = Ndarray a \<and> np_size a = 0)
   \<Longrightarrow> start_speaking raises s x sample_rate text = (Some ValueError, s)"
  by (auto simp: start_speaking_def isinstance_ndarray_def split: pyarg.splits)

theorem start_speaking_rejects_witness:
  "\<not> isinstance_ndarray (PyList [1/10, 1/5])
   \<and> start_speaking never_raises speaking (PyList [1/10, 1/5]) None ''hello''
        = (Some ValueError, speaking)
   \<and> np_size (NdArray Float32 [0] []) = 0
   \<and> start_speaking never_raises speaking (Ndarray (NdArray Float32 [0] [])) (Some 16000) ''hello''
        = (Some ValueError, speaking)"
proof -
  have a: "\<not> isinstance_ndarray (PyList [1/10, 1/5])"
    by (simp add: isinstance_ndarray_def)
  have b: "np_size (NdArray Float32 [0] []) = 0"
    by (simp add: np_size_def)
  from start_speaking_rejects [of "PyList [1/10, 1/5]" never_raises speaking None "''hello''"]
    start_speaking_rejects [of "Ndarray (NdArray Float32 [0] [])" never_raises speaking
      "Some 16000" "''hello''"] a b
  show ?thesis by simp
qed

text \<open>
  C8. The claim is that after a call with no client connected no completion timer is
  pending. The call starts none, but it cancels none either: a playback is started for
  one client, the client leaves, and the next call finds no client; it returns without
  an exception and the timer of the first playback is still pending.
\<close>

theorem no_audience_timer_still_pending:
  "clients audience_left = {||} \<and> np_size two_samples = 2
   \<and> fst (start_speaking never_raises audience_left (Ndarray two_samples) None '''') = None
   \<and> \<not> is_playing (snd (start_speaking never_raises audience_left (Ndarray two_samples) None ''''))
   \<and> timers (snd (start_speaking never_raises audience_left (Ndarray two_samples) None '''')) = [1]"
  by code_simp

text \<open>
  C8, as amended. Called with a non-empty numpy array and no client connected,
  \<^verbatim>\<open>start_speaking\<close> does not raise, logs the warning, leaves the playing flag cleared, so
  that \<^verbatim>\<open>check_if_speaking\<close> is false, hands no frame to any connection and starts no
  timer: the state at return is the state before with the flag cleared and the two log
  lines added.
\<close>

theorem start_speaking_no_audience:
  "clients s = {||} \<Longrightarrow> np_size a \<noteq> 0 \<Longrightarrow>
     start_speaking raises s (Ndarray a) sample_rate text =
       (None, s\<lparr>is_playing := False,
                logged := logged s @ [Debug_broadcasting 0, Warning_no_clients]\<rparr>)
   \<and> \<not> check_if_speaking (snd (start_speaking raises s (Ndarray a) sample_rate text))
   \<and> outbox (snd (start_speaking raises s (Ndarray a) sample_rate text)) = outbox s
   \<and> timers (snd (start_speaking raises s (Ndarray a) sample_rate text)) = timers s"
  by (simp add: start_speaking_def stop_speaking_no_clients log_line_def Let_def
        check_if_speaking_def fcard_fempty)

theorem start_speaking_no_audience_witness:
  "clients idle_server = {||} \<and> np_size two_samples \<noteq> 0
   \<and> start_speaking never_raises idle_server (Ndarray two_samples) None ''hello'' =
       (None, idle_server\<lparr>is_playing := False,
                          logged := [Debug_broadcasting 0, Warning_no_clients]\<rparr>)
   \<and> \<not> check_if_speaking
         (snd (start_speaking never_raises idle_server (Ndarray two_samples) None ''hello''))
   \<and> timers (snd (start_speaking never_raises idle_server (Ndarray two_samples) None ''hello''))
       = []"
proof -
  have a: "clients idle_server = {||}" "logged idle_server = []" "timers idle_server = []"
    by (simp_all add: idle_server_def new_server_def)
  have b: "np_size two_samples \<noteq> 0"
    by (simp add: two_samples_def np_size_def)
  from start_speaking_no_audience [OF a(1) b, of never_raises None "''hello''"] a b
  show ?thesis by (simp add: check_if_speaking_def)
qed

text \<open>
  C9. \<^verbatim>\<open>stop_speaking\<close> changes nothing when nothing is playing. When something is
  playing it clears the flag and tries every client of the set with a stop frame: a
  client for which the attempt does not raise has the frame appended to what it was
  sent, and the others are dropped from the set. So after \<^verbatim>\<open>start_speaking\<close> with a
  non-empty array followed by \<^verbatim>\<open>stop_speaking\<close>, \<^verbatim>\<open>check_if_speaking\<close> is false and every
  client still in the set was sent the stop frame last.
\<close>

theorem stop_speaking_effect:
  "(\<not> is_playing s \<longrightarrow> stop_speaking raises s = s)
   \<and> (is_playing s \<longrightarrow>
        \<not> is_playing (stop_speaking raises s)
      \<and> (\<forall>c. c |\<in>| clients s \<and> \<not> raises Stop_playback c
             \<longrightarrow> outbox (stop_speaking raises s) c = outbox s c @ [Stop_playback])
      \<and> clients (stop_speaking raises s) = ffilter (\<lambda>c. \<not> raises Stop_playback c) (clients s))
   \<and> (np_size a \<noteq> 0 \<longrightarrow>
        \<not> check_if_speaking (stop_speaking raises (snd (start_speaking r s (Ndarray a) sr t)))
      \<and> (\<forall>c. c |\<in>| clients (stop_speaking raises (snd (start_speaking r s (Ndarray a) sr t)))
             \<longrightarrow> outbox (stop_speaking raises (snd (start_speaking r s (Ndarray a) sr t))) c
                 = outbox (snd (start_speaking r s (Ndarray a) sr t)) c @ [Stop_playback]))"
proof (intro conjI impI)
  assume "\<not> is_playing s"
  then show "stop_speaking raises s = s" by (rule stop_speaking_idle)
next
  assume playing: "is_playing s"
  from stop_speaking_playing [OF playing, of raises]
  show "\<not> is_playing (stop_speaking raises s)" by simp
  from stop_speaking_playing [OF playing, of raises]
  show "\<forall>c. c |\<in>| clients s \<and> \<not> raises Stop_playback c
          \<longrightarrow> outbox (stop_speaking raises s) c = outbox s c @ [Stop_playback]" by simp
  from stop_speaking_playing [OF playing, of raises]
  show "clients (stop_speaking raises s) = ffilter (\<lambda>c. \<not> raises Stop_playback c) (clients s)"
    by simp
next
  let ?mid = "snd (start_speaking r s (Ndarray a) sr t)"
  assume valid: "np_size a \<noteq> 0"
  show "\<not> check_if_speaking (stop_speaking raises ?mid)"
    by (simp add: check_if_speaking_def stop_speaking_def broadcast_def)
  show "\<forall>c. c |\<in>| clients (stop_speaking raises ?mid)
          \<longrightarrow> outbox (stop_speaking raises ?mid) c = outbox ?mid c @ [Stop_playback]"
  proof (cases "is_playing ?mid")
    case True
    from stop_speaking_playing [OF True, of raises] show ?thesis by simp
  next
    case False
    with start_speaking_playing_or_alone [OF valid, of r s sr t]
    have "clients ?mid = {||}" by simp
    with False show ?thesis by (simp add: stop_speaking_idle)
  qed
qed

theorem stop_speaking_effect_witness:
  "\<not> is_playing one_client \<and> stop_speaking never_raises one_client = one_client
   \<and> is_playing speaking \<and> \<not> is_playing (stop_speaking never_raises speaking)
   \<and> 1 |\<in>| clients speaking \<and> \<not> never_raises Stop_playback 1
   \<and> outbox (stop_speaking never_raises speaking) 1
       = [Config 16000 1024 ''float32'', Audio_playback two_samples 2 ''first'', Stop_playback]
   \<and> np_size two_samples \<noteq> 0
   \<and> \<not> check_if_speaking (stop_speaking never_raises
          (snd (start_speaking never_raises one_client (Ndarray two_samples) (Some 2) ''first'')))
   \<and> 1 |\<in>| clients (stop_speaking never_raises
          (snd (start_speaking never_raises one_client (Ndarray two_samples) (Some 2) ''first'')))
   \<and> outbox (stop_speaking never_raises
          (snd (start_speaking never_raises one_client (Ndarray two_samples) (Some 2) ''first''))) 1
       = [Config 16000 1024 ''float32'', Audio_playback two_samples 2 ''first'', Stop_playback]"
proof -
  have idle: "\<not> is_playing one_client" by code_simp
  have playing: "is_playing speaking" by code_simp
  have member: "1 |\<in>| clients speaking" by code_simp
  have sends: "\<not> never_raises Stop_playback 1" by (simp add: never_raises_def)
  have sent: "outbox speaking 1
      = [Config 16000 1024 ''float32'', Audio_playback two_samples 2 ''first'']" by code_simp
  have valid: "np_size two_samples \<noteq> 0" by (simp add: two_samples_def np_size_def)
  have still: "1 |\<in>| clients (stop_speaking never_raises
      (snd (start_speaking never_raises one_client (Ndarray two_samples) (Some 2) ''first'')))"
    by code_simp
  have mid: "outbox (snd (start_speaking never_raises one_client (Ndarray two_samples) (Some 2)
      ''first'')) 1 = [Config 16000 1024 ''float32'', Audio_playback two_samples 2 ''first'']"
    by code_simp
  from stop_speaking_effect [of one_client never_raises two_samples never_raises "Some 2"
      "''first''"]
    stop_speaking_effect [of speaking never_raises two_samples never_raises "Some 2" "''first''"]
    idle playing member sends sent valid still mid
  show ?thesis by simp
qed

text \<open>
  C10. After \<^verbatim>\<open>stop_listening\<close> on a server that was listening the client set is empty
  and \<^verbatim>\<open>get_connected_clients\<close> returns 0, whether the call returned or the closing of
  the server raised; a second call returns at once and changes nothing.
\<close>

theorem stop_listening_clears:
  "is_listening s \<Longrightarrow>
     clients (snd (stop_listening cr sr s)) = {||}
   \<and> get_connected_clients (snd (stop_listening cr sr s)) = 0
   \<and> stop_listening cr' sr' (snd (stop_listening cr sr s)) = (None, snd (stop_listening cr sr s))"
  by (simp add: stop_listening_def get_connected_clients_def Let_def log_line_def fcard_fempty)

theorem stop_listening_clears_witness:
  "is_listening one_client \<and> get_connected_clients one_client = 1
   \<and> fst (stop_listening close_never_raises False one_client) = None
   \<and> clients (snd (stop_listening close_never_raises False one_client)) = {||}
   \<and> get_connected_clients (snd (stop_listening close_never_raises False one_client)) = 0
   \<and> stop_listening close_never_raises False (snd (stop_listening close_never_raises False one_client))
       = (None, snd (stop_listening close_never_raises False one_client))"
proof -
  have a: "is_listening one_client" by code_simp
  have b: "get_connected_clients one_client = 1" by code_simp
  have c: "fst (stop_listening close_never_raises False one_client) = None" by code_simp
  from stop_listening_clears [OF a, of close_never_raises False close_never_raises False] a b c
  show ?thesis by simp
qed

end
